theory Spec2Isabelle
  imports Complex_Main "HOL-Library.Sublist"
begin

section \<open>JavaScript values and strings\<close>

text \<open>
  The values that reach \<^verbatim>\<open>src/server.ts\<close> from outside are the results of
  \<^verbatim>\<open>JSON.parse\<close>: the tool arguments of a request and the parsed standard output of
  the child. A JavaScript string is modelled as a \<open>string\<close> whose characters are the code
  units below 256; a number carries the value of the parsed double.
\<close>

datatype jsval =
    Undefined
  | Null
  | JBool bool
  | JNumber rat
  | JString string
  | JArray "jsval list"
  | JObject "(string \<times> jsval) list"

text \<open>What a \<^verbatim>\<open>throw\<close> inside \<^verbatim>\<open>parseClaudeOutput\<close> can carry.\<close>

datatype js_exn = SyntaxError | TypeError

text \<open>\<^verbatim>\<open>typeof v\<close>, with the strings JavaScript returns.\<close>

fun typeof :: "jsval \<Rightarrow> string" where
  "typeof Undefined = ''undefined''"
| "typeof Null = ''object''"
| "typeof (JBool b) = ''boolean''"
| "typeof (JNumber n) = ''number''"
| "typeof (JString s) = ''string''"
| "typeof (JArray vs) = ''object''"
| "typeof (JObject kvs) = ''object''"

text \<open>Truthiness, as \<^verbatim>\<open>if (v)\<close>, \<^verbatim>\<open>!v\<close> and \<^verbatim>\<open>v && w\<close> test it.\<close>

fun truthy :: "jsval \<Rightarrow> bool" where
  "truthy Undefined = False"
| "truthy Null = False"
| "truthy (JBool b) = b"
| "truthy (JNumber n) = (n \<noteq> 0)"
| "truthy (JString s) = (s \<noteq> [])"
| "truthy (JArray vs) = True"
| "truthy (JObject kvs) = True"

text \<open>
  The string held by a value whose \<^verbatim>\<open>typeof\<close> is \<^verbatim>\<open>'string'\<close>, the boolean
  held by one whose \<^verbatim>\<open>typeof\<close> is \<^verbatim>\<open>'boolean'\<close>. The program reads them only
  after that test.
\<close>

fun string_value :: "jsval \<Rightarrow> string" where
  "string_value (JString s) = s"
| "string_value v = []"

fun bool_value :: "jsval \<Rightarrow> bool" where
  "bool_value (JBool b) = b"
| "bool_value v = False"

text \<open>
  \<^verbatim>\<open>v.k\<close> for the property names this program reads (\<^verbatim>\<open>result\<close>,
  \<^verbatim>\<open>session_id\<close>, \<^verbatim>\<open>is_error\<close>, \<^verbatim>\<open>prompt\<close>, \<^verbatim>\<open>threadId\<close>,
  \<^verbatim>\<open>workFolder\<close>). None of them is defined on a built-in prototype, so on a
  boolean, number, string or array the read gives \<^verbatim>\<open>undefined\<close>; on an object it is
  the own property of that name; on \<^verbatim>\<open>null\<close> and \<^verbatim>\<open>undefined\<close> it throws a
  TypeError. The list of a \<open>JObject\<close> holds the own properties of the object, the
  first entry of a name being the one that counts.
\<close>

fun get_prop :: "jsval \<Rightarrow> string \<Rightarrow> js_exn + jsval" where
  "get_prop Undefined k = Inl TypeError"
| "get_prop Null k = Inl TypeError"
| "get_prop (JObject kvs) k = Inr (case map_of kvs k of None \<Rightarrow> Undefined | Some v \<Rightarrow> v)"
| "get_prop v k = Inr Undefined"

text \<open>\<^verbatim>\<open>v?.k\<close>: optional chaining gives \<^verbatim>\<open>undefined\<close> where \<^verbatim>\<open>v.k\<close> would throw.\<close>

definition opt_prop :: "jsval \<Rightarrow> string \<Rightarrow> jsval" where
  "opt_prop v k = (case get_prop v k of Inl e \<Rightarrow> Undefined | Inr w \<Rightarrow> w)"

text \<open>
  \<^verbatim>\<open>k in v\<close>, for the same property names, on a value whose \<^verbatim>\<open>typeof\<close> is
  \<^verbatim>\<open>'object'\<close> and which is truthy (the source tests both before it uses \<^verbatim>\<open>in\<close>).
\<close>

fun has_prop :: "string \<Rightarrow> jsval \<Rightarrow> bool" where
  "has_prop k (JObject kvs) = (map_of kvs k \<noteq> None)"
| "has_prop k v = False"

text \<open>
  \<^verbatim>\<open>String.prototype.trim\<close>. The white space and line terminators of JavaScript among the
  code units below 256 are TAB, LF, VT, FF, CR, SPACE and NBSP.
\<close>

definition js_whitespace :: "char \<Rightarrow> bool" where
  "js_whitespace c = (of_char c \<in> {9, 10, 11, 12, 13, 32, 160 :: nat})"

definition trim :: "string \<Rightarrow> string" where
  "trim s = rev (dropWhile js_whitespace (rev (dropWhile js_whitespace s)))"

text \<open>\<^verbatim>\<open>s.includes(t)\<close> and \<^verbatim>\<open>s.startsWith(t)\<close>.\<close>

fun str_includes :: "string \<Rightarrow> string \<Rightarrow> bool" where
  "str_includes [] t = (t = [])"
| "str_includes (c # cs) t = (prefix t (c # cs) \<or> str_includes cs t)"

definition startsWith :: "string \<Rightarrow> string \<Rightarrow> bool" where
  "startsWith s t = prefix t s"

text \<open>\<^verbatim>\<open>String(n)\<close> for an integer \<open>n\<close>, and for the exit code of a child, which is
  \<^verbatim>\<open>null\<close> when a signal ended it.\<close>

fun decimal :: "nat \<Rightarrow> string" where
  "decimal n =
     (if 10 \<le> n then decimal (n div 10) @ [''0123456789'' ! (n mod 10)]
      else [''0123456789'' ! n])"

definition String_number :: "int \<Rightarrow> string" where
  "String_number i = (if 0 \<le> i then decimal (nat i) else CHR ''-'' # decimal (nat (- i)))"

definition string_of_code :: "int option \<Rightarrow> string" where
  "string_of_code c = (case c of None \<Rightarrow> ''null'' | Some i \<Rightarrow> String_number i)"

section \<open>The platform\<close>

text \<open>
  What the program reads from Node.js and from the machine it runs on: the environment
  variable \<^verbatim>\<open>CLAUDE_CLI_NAME\<close>, \<^verbatim>\<open>os.homedir()\<close>, \<^verbatim>\<open>fs.existsSync\<close>,
  \<^verbatim>\<open>path.resolve\<close>, \<^verbatim>\<open>path.join\<close>, \<^verbatim>\<open>path.isAbsolute\<close> and \<^verbatim>\<open>JSON.parse\<close>
  (\<open>Inl\<close> when it throws). They are parameters of the model: every theorem below holds
  for every platform.
\<close>

record platform =
  CLAUDE_CLI_NAME :: "string option"
  homedir :: string
  existsSync :: "string \<Rightarrow> bool"
  pathResolve :: "string \<Rightarrow> string"
  pathJoin :: "string list \<Rightarrow> string"
  isAbsolute :: "string \<Rightarrow> bool"
  JSON_parse :: "string \<Rightarrow> js_exn + jsval"

section \<open>The output interpreter: \<^verbatim>\<open>parseClaudeOutput\<close> and \<^verbatim>\<open>buildResponse\<close>\<close>

record parsed_output =
  resultText :: string
  sessionId :: "string option"
  isError :: "bool option"

text \<open>
  The body of the \<^verbatim>\<open>try\<close> block of \<^verbatim>\<open>parseClaudeOutput\<close>; \<open>Inl\<close> is an exception
  leaving the block. The diagnostics written with \<^verbatim>\<open>console.error\<close> are not part of
  the returned value and are left out.
\<close>

definition parseClaudeOutput_try :: "platform \<Rightarrow> string \<Rightarrow> js_exn + parsed_output" where
  "parseClaudeOutput_try pf stdout =
     (case JSON_parse pf stdout of
        Inl e \<Rightarrow> Inl e
      | Inr parsed \<Rightarrow>
          (case get_prop parsed ''result'' of
             Inl e \<Rightarrow> Inl e
           | Inr res \<Rightarrow>
               if typeof res \<noteq> ''string''
               then Inr \<lparr>resultText = stdout, sessionId = None, isError = None\<rparr>
               else
                 (case get_prop parsed ''session_id'' of
                    Inl e \<Rightarrow> Inl e
                  | Inr sid \<Rightarrow>
                      (case get_prop parsed ''is_error'' of
                         Inl e \<Rightarrow> Inl e
                       | Inr err \<Rightarrow>
                           Inr \<lparr>resultText = string_value res,
                                sessionId = (if typeof sid = ''string''
                                             then Some (string_value sid) else None),
                                isError = (if typeof err = ''boolean''
                                           then Some (bool_value err) else None)\<rparr>))))"

text \<open>The whole function: the \<^verbatim>\<open>catch\<close> clause turns every exception into the raw text.\<close>

definition parseClaudeOutput :: "platform \<Rightarrow> string \<Rightarrow> parsed_output" where
  "parseClaudeOutput pf stdout =
     (case parseClaudeOutput_try pf stdout of
        Inl e \<Rightarrow> \<lparr>resultText = stdout, sessionId = None, isError = None\<rparr>
      | Inr r \<Rightarrow> r)"

record text_block =
  block_type :: string
  block_text :: string

record structured_content =
  threadId :: string
  sc_content :: string

record server_result =
  content :: "text_block list"
  result_isError :: bool
  structuredContent :: "structured_content option"

text \<open>
  \<^verbatim>\<open>buildResponse(resultText, sessionId, isError)\<close>: \<^verbatim>\<open>isError ?? false\<close>, and
  \<^verbatim>\<open>if (sessionId)\<close> on a value that is a string or \<^verbatim>\<open>undefined\<close>.
\<close>

definition buildResponse :: "string \<Rightarrow> string option \<Rightarrow> bool option \<Rightarrow> server_result" where
  "buildResponse rt sid err =
     (let response = \<lparr>content = [\<lparr>block_type = ''text'', block_text = rt\<rparr>],
                       result_isError = (case err of None \<Rightarrow> False | Some b \<Rightarrow> b),
                       structuredContent = None\<rparr>
      in case sid of
           None \<Rightarrow> response
         | Some s \<Rightarrow>
             if s \<noteq> []
             then response\<lparr>structuredContent := Some \<lparr>threadId = s, sc_content = rt\<rparr>\<rparr>
             else response)"

section \<open>The executable resolver: \<^verbatim>\<open>findClaudeCli\<close>\<close>

text \<open>
  \<^verbatim>\<open>if (customCliName)\<close> holds when the variable is set to a non-empty string. \<open>Inl\<close> is
  the message of the \<^verbatim>\<open>Error\<close> thrown for a relative path. The debug lines and the warning
  are not part of the result.
\<close>

definition relative_error :: string where
  "relative_error = ''Invalid CLAUDE_CLI_NAME: Relative paths are not allowed. Use either a simple name (e.g., 'claude') or an absolute path (e.g., '/tmp/claude-test')''"

definition userPath :: "platform \<Rightarrow> string" where
  "userPath pf = pathJoin pf [homedir pf, ''.claude'', ''local'', ''claude'']"

definition findClaudeCli :: "platform \<Rightarrow> string + string" where
  "findClaudeCli pf =
     (let customCliName = CLAUDE_CLI_NAME pf;
          custom_set = (case customCliName of None \<Rightarrow> False | Some c \<Rightarrow> c \<noteq> []);
          c = (case customCliName of None \<Rightarrow> [] | Some c \<Rightarrow> c)
      in if custom_set \<and> isAbsolute pf c then Inr c
         else if custom_set \<and>
                 (startsWith c ''./'' \<or> startsWith c ''../'' \<or> str_includes c ''/'')
         then Inl relative_error
         else
           (let cliName = (if custom_set then c else ''claude'')
            in if existsSync pf (userPath pf) then Inr (userPath pf) else Inr cliName))"

section \<open>The process runner: \<^verbatim>\<open>spawnAsync\<close>\<close>

text \<open>
  An \<^verbatim>\<open>Error\<close> object, with the properties the program reads from it. \<^verbatim>\<open>new Error(m)\<close>
  has the message alone.
\<close>

record js_error =
  message :: string
  err_path :: "string option"
  err_syscall :: "string option"
  err_code :: "string option"
  err_signal :: "string option"
  err_stderr :: "string option"
  err_stdout :: "string option"

definition new_Error :: "string \<Rightarrow> js_error" where
  "new_Error m = \<lparr>message = m, err_path = None, err_syscall = None, err_code = None,
                   err_signal = None, err_stderr = None, err_stdout = None\<rparr>"

text \<open>\<^verbatim>\<open>if (x)\<close> on a property that is a string or absent.\<close>

definition present :: "string option \<Rightarrow> bool" where
  "present x = (case x of None \<Rightarrow> False | Some s \<Rightarrow> s \<noteq> [])"

text \<open>
  What the child process object emits: a chunk of its standard output or standard error
  (already decoded by \<^verbatim>\<open>data.toString()\<close>), the \<^verbatim>\<open>'error'\<close> event with its error
  object, and the \<^verbatim>\<open>'close'\<close> event with the exit code (\<^verbatim>\<open>null\<close> when a signal ended
  the child) and the signal. The handler of \<^verbatim>\<open>'close'\<close> declares the code only.
\<close>

datatype child_event =
    StdoutData string
  | StderrData string
  | ErrorEvent js_error
  | CloseEvent "int option" "string option"

text \<open>A call of \<^verbatim>\<open>resolve\<close> or of \<^verbatim>\<open>reject\<close>.\<close>

datatype settlement =
    Resolve string string
  | Reject js_error

text \<open>
  The variables of one invocation, and the calls of \<^verbatim>\<open>resolve\<close> and \<^verbatim>\<open>reject\<close> it has
  made so far, in order.
\<close>

record spawn_state =
  stdout :: string
  stderr :: string
  settled :: bool
  calls :: "settlement list"

definition spawn_init :: spawn_state where
  "spawn_init = \<lparr>stdout = [], stderr = [], settled = False, calls = []\<rparr>"

definition spawn_error_message :: "spawn_state \<Rightarrow> js_error \<Rightarrow> string" where
  "spawn_error_message st error =
     (let m0 = ''Spawn error: '' @ message error;
          m1 = (if present (err_path error) then m0 @ '' | Path: '' @ the (err_path error) else m0);
          m2 = (if present (err_syscall error)
                then m1 @ '' | Syscall: '' @ the (err_syscall error) else m1)
      in m2 @ ''\<newline>Stderr: '' @ trim (stderr st))"

definition close_error_message :: "spawn_state \<Rightarrow> int option \<Rightarrow> string" where
  "close_error_message st code =
     ''Command failed with exit code '' @ string_of_code code @
     ''\<newline>Stderr: '' @ trim (stderr st) @ ''\<newline>Stdout: '' @ trim (stdout st)"

fun on_event :: "spawn_state \<Rightarrow> child_event \<Rightarrow> spawn_state" where
  "on_event st (StdoutData d) = st\<lparr>stdout := stdout st @ d\<rparr>"
| "on_event st (StderrData d) = st\<lparr>stderr := stderr st @ d\<rparr>"
| "on_event st (ErrorEvent error) =
     (if settled st then st
      else st\<lparr>settled := True,
              calls := calls st @ [Reject (new_Error (spawn_error_message st error))]\<rparr>)"
| "on_event st (CloseEvent code sig) =
     (if settled st then st
      else if code = Some 0
      then st\<lparr>settled := True, calls := calls st @ [Resolve (stdout st) (stderr st)]\<rparr>
      else st\<lparr>settled := True,
              calls := calls st @ [Reject (new_Error (close_error_message st code))]\<rparr>)"

definition run_events :: "spawn_state \<Rightarrow> child_event list \<Rightarrow> spawn_state" where
  "run_events st evs = foldl on_event st evs"

text \<open>
  The promise takes the first call of \<^verbatim>\<open>resolve\<close> or \<^verbatim>\<open>reject\<close>; it stays pending
  (\<open>None\<close>) while there is none.
\<close>

definition promise_of :: "spawn_state \<Rightarrow> settlement option" where
  "promise_of st = (case calls st of [] \<Rightarrow> None | c # cs \<Rightarrow> Some c)"

definition spawnAsync :: "child_event list \<Rightarrow> settlement option" where
  "spawnAsync evs = promise_of (run_events spawn_init evs)"

section \<open>The request handler\<close>

datatype ErrorCode = MethodNotFound | InvalidParams | InternalError

text \<open>An \<^verbatim>\<open>McpError\<close>, with the code and the message given to its constructor.\<close>

record McpError =
  mcp_code :: ErrorCode
  mcp_message :: string

text \<open>The arguments of the call of \<^verbatim>\<open>spawn\<close> that \<^verbatim>\<open>spawnAsync\<close> makes.\<close>

record spawn_request =
  command :: string
  args :: "string list"
  shell :: bool
  timeout :: nat
  cwd :: string

definition executionTimeoutMs :: nat where
  "executionTimeoutMs = 1800000"

definition resolveWorkFolder :: "platform \<Rightarrow> jsval \<Rightarrow> McpError + string" where
  "resolveWorkFolder pf workFolder =
     (if typeof workFolder = ''string'' \<and> trim (string_value workFolder) = []
      then Inl \<lparr>mcp_code = InvalidParams, mcp_message = ''workFolder cannot be an empty string''\<rparr>
      else if truthy workFolder \<and> typeof workFolder = ''string''
      then
        (let resolvedCwd = pathResolve pf (string_value workFolder)
         in if existsSync pf resolvedCwd then Inr resolvedCwd
            else Inl \<lparr>mcp_code = InvalidParams,
                      mcp_message = ''Specified workFolder does not exist: '' @ resolvedCwd\<rparr>)
      else Inr (homedir pf))"

text \<open>
  The \<^verbatim>\<open>catch\<close> clause of both tools, on the error a rejected \<^verbatim>\<open>spawnAsync\<close> throws.
\<close>

definition execution_error :: "js_error \<Rightarrow> McpError" where
  "execution_error error =
     (let m0 = (if message error \<noteq> [] then message error else ''Unknown error'');
          m1 = (if present (err_stderr error)
                then m0 @ ''\<newline>Stderr: '' @ the (err_stderr error) else m0);
          m2 = (if present (err_stdout error)
                then m1 @ ''\<newline>Stdout: '' @ the (err_stdout error) else m1);
          errorMessage =
            (if str_includes (message error) ''ENOENT''
             then m2 @ ''\<newline>Claude CLI not found. Ensure it is installed and in your PATH, or set CLAUDE_CLI_NAME.''
             else m2)
      in if err_signal error = Some ''SIGTERM'' \<or> str_includes (message error) ''ETIMEDOUT''
            \<or> err_code error = Some ''ETIMEDOUT''
         then \<lparr>mcp_code = InternalError,
               mcp_message = ''Claude CLI command timed out after '' @
                             decimal (executionTimeoutMs div 1000) @ ''s. Details: '' @
                             errorMessage\<rparr>
         else \<lparr>mcp_code = InternalError,
               mcp_message = ''Claude CLI execution failed: '' @ errorMessage\<rparr>)"

text \<open>
  One run of a tool call: the calls of \<^verbatim>\<open>spawn\<close> it made, and how the handler ended:
  \<open>None\<close> while the promise of \<^verbatim>\<open>spawnAsync\<close> is pending, \<open>Some (Inl e)\<close> when it threw
  \<open>e\<close>, \<open>Some (Inr r)\<close> when it returned \<open>r\<close>.
\<close>

record handler_run =
  spawned :: "spawn_request list"
  outcome :: "(McpError + server_result) option"

definition throw :: "McpError \<Rightarrow> handler_run" where
  "throw e = \<lparr>spawned = [], outcome = Some (Inl e)\<rparr>"

text \<open>
  The \<^verbatim>\<open>try\<close> block and its \<^verbatim>\<open>catch\<close>: \<^verbatim>\<open>spawnAsync\<close> with the resolved command, the
  argument vector, the timeout and the working directory, then \<^verbatim>\<open>parseClaudeOutput\<close>
  and \<^verbatim>\<open>buildResponse\<close>. The child is a parameter: the events it emits for the request.
  The call of \<^verbatim>\<open>spawn\<close> itself is taken to return the child process object; Node.js
  throws there only for options it cannot pass on, such as an argument with a NUL
  character.
\<close>

definition invoke ::
  "platform \<Rightarrow> string \<Rightarrow> string list \<Rightarrow> string \<Rightarrow> (spawn_request \<Rightarrow> child_event list) \<Rightarrow> handler_run"
where
  "invoke pf claudeCliPath claudeProcessArgs effectiveCwd child =
     (let req = \<lparr>command = claudeCliPath, args = claudeProcessArgs, shell = False,
                  timeout = executionTimeoutMs, cwd = effectiveCwd\<rparr>
      in \<lparr>spawned = [req],
          outcome =
            (case spawnAsync (child req) of
               None \<Rightarrow> None
             | Some (Resolve out err) \<Rightarrow>
                 (let p = parseClaudeOutput pf out
                  in Some (Inr (buildResponse (resultText p) (sessionId p) (isError p))))
             | Some (Reject error) \<Rightarrow> Some (Inl (execution_error error)))\<rparr>)"

text \<open>
  The handler of \<^verbatim>\<open>CallToolRequestSchema\<close>, for the tool name and the arguments of the
  request, with the path that \<^verbatim>\<open>findClaudeCli\<close> gave the constructor. The banner printed
  on the first call is a log line and is left out.
\<close>

definition callTool ::
  "platform \<Rightarrow> string \<Rightarrow> string \<Rightarrow> jsval \<Rightarrow> (spawn_request \<Rightarrow> child_event list) \<Rightarrow> handler_run"
where
  \<open>callTool pf claudeCliPath toolName toolArguments child =
     (if toolName \<noteq> ''claude_code'' \<and> toolName \<noteq> ''claude_code_reply''
      then throw \<lparr>mcp_code = MethodNotFound,
                  mcp_message = ''Tool '' @ toolName @ '' not found''\<rparr>
      else if toolName = ''claude_code_reply''
      then
        (let threadId = opt_prop toolArguments ''threadId'';
             prompt = opt_prop toolArguments ''prompt''
         in if \<not> truthy threadId \<or> typeof threadId \<noteq> ''string''
            then throw \<lparr>mcp_code = InvalidParams,
                        mcp_message = ''Missing or invalid required parameter: threadId''\<rparr>
            else if \<not> truthy prompt \<or> typeof prompt \<noteq> ''string''
            then throw \<lparr>mcp_code = InvalidParams,
                        mcp_message = ''Missing or invalid required parameter: prompt''\<rparr>
            else
              (case resolveWorkFolder pf (opt_prop toolArguments ''workFolder'') of
                 Inl e \<Rightarrow> throw e
               | Inr effectiveCwd \<Rightarrow>
                   invoke pf claudeCliPath
                     [''--dangerously-skip-permissions'', ''-p'', ''--output-format'', ''json'',
                      ''--resume'', string_value threadId, string_value prompt]
                     effectiveCwd child))
      else if truthy toolArguments \<and> typeof toolArguments = ''object''
              \<and> has_prop ''prompt'' toolArguments
              \<and> typeof (opt_prop toolArguments ''prompt'') = ''string''
      then
        (let prompt = string_value (opt_prop toolArguments ''prompt'')
         in case resolveWorkFolder pf (opt_prop toolArguments ''workFolder'') of
              Inl e \<Rightarrow> throw e
            | Inr effectiveCwd \<Rightarrow>
                invoke pf claudeCliPath
                  [''--dangerously-skip-permissions'', ''-p'', ''--output-format'', ''json'', prompt]
                  effectiveCwd child)
      else throw \<lparr>mcp_code = InvalidParams,
                  mcp_message = ''Missing or invalid required parameter: prompt (must be an object with a string "prompt" property) for claude_code tool''\<rparr>)\<close>

section \<open>A platform and children for running examples\<close>

text \<open>
  A POSIX machine: a path is absolute when it starts with a slash, \<^verbatim>\<open>path.join\<close> of
  normalised segments puts slashes between them, and \<^verbatim>\<open>path.resolve\<close> of a normalised
  path leaves an absolute one alone and puts the working directory of the server,
  \<^verbatim>\<open>/srv/mcp\<close>, before a relative one. The home directory and \<^verbatim>\<open>/tmp/project\<close> exist.
  \<open>sample_JSON_parse\<close> lists \<^verbatim>\<open>JSON.parse\<close> at the JSON texts the examples use; the
  other texts they use are not JSON.
\<close>

definition posix_isAbsolute :: "string \<Rightarrow> bool" where
  "posix_isAbsolute p = (case p of [] \<Rightarrow> False | c # cs \<Rightarrow> c = CHR ''/'')"

fun join_slash :: "string list \<Rightarrow> string" where
  "join_slash [] = ''.''"
| "join_slash [p] = p"
| "join_slash (p # ps) = p @ ''/'' @ join_slash ps"

definition sample_JSON_parse :: "string \<Rightarrow> js_exn + jsval" where
  \<open>sample_JSON_parse s =
     (if s = ''{"result":"ok","session_id":"abc123"}''
      then Inr (JObject [(''result'', JString ''ok''), (''session_id'', JString ''abc123'')])
      else if s = ''{"result":"ok","session_id":""}''
      then Inr (JObject [(''result'', JString ''ok''), (''session_id'', JString [])])
      else if s = ''{"result":"ok","session_id":7,"is_error":true}''
      then Inr (JObject [(''result'', JString ''ok''), (''session_id'', JNumber 7),
                         (''is_error'', JBool True)])
      else if s = ''{"session_id":"abc123"}''
      then Inr (JObject [(''session_id'', JString ''abc123'')])
      else if s = ''null''
      then Inr Null
      else Inl SyntaxError)\<close>

definition sample_platform :: platform where
  "sample_platform =
     \<lparr>CLAUDE_CLI_NAME = None,
      homedir = ''/home/user'',
      existsSync = (\<lambda>p. p = ''/home/user'' \<or> p = ''/tmp/project''),
      pathResolve = (\<lambda>p. if posix_isAbsolute p then p else ''/srv/mcp/'' @ p),
      pathJoin = join_slash,
      isAbsolute = posix_isAbsolute,
      JSON_parse = sample_JSON_parse\<rparr>"

text \<open>
  The same machine with \<^verbatim>\<open>CLAUDE_CLI_NAME=my-claude\<close> and a local installation at
  \<^verbatim>\<open>/home/user/.claude/local/claude\<close>.
\<close>

definition override_platform :: platform where
  "override_platform =
     sample_platform\<lparr>CLAUDE_CLI_NAME := Some ''my-claude'',
                     existsSync := (\<lambda>p. p = ''/home/user''
                                         \<or> p = ''/home/user/.claude/local/claude'')\<rparr>"

text \<open>
  A child that prints a structured record in two chunks and exits with code 0; and a child
  that prints nothing and is ended by \<^verbatim>\<open>SIGTERM\<close>, which is what the child process object
  reports when the \<^verbatim>\<open>timeout\<close> given to \<^verbatim>\<open>spawn\<close> runs out: the \<^verbatim>\<open>'close'\<close>
  event with the code \<^verbatim>\<open>null\<close> and the signal \<^verbatim>\<open>'SIGTERM'\<close>.
\<close>

definition ok_child :: "spawn_request \<Rightarrow> child_event list" where
  \<open>ok_child req =
     [StdoutData ''{"result":"ok",'', StdoutData ''"session_id":"abc123"}'',
      CloseEvent (Some 0) None]\<close>

definition timed_out_child :: "spawn_request \<Rightarrow> child_event list" where
  "timed_out_child req = [CloseEvent None (Some ''SIGTERM'')]"

section \<open>Event sequences\<close>

text \<open>
  Notions for stating properties of a sequence of events: the events that only carry
  output, the text a sequence writes to each stream, and the invariant that ties the
  \<^verbatim>\<open>settled\<close> flag to the calls of \<^verbatim>\<open>resolve\<close> and \<^verbatim>\<open>reject\<close>.
\<close>

fun is_data :: "child_event \<Rightarrow> bool" where
  "is_data (StdoutData d) = True"
| "is_data (StderrData d) = True"
| "is_data ev = False"

fun stdout_chunk :: "child_event \<Rightarrow> string" where
  "stdout_chunk (StdoutData d) = d"
| "stdout_chunk ev = []"

fun stderr_chunk :: "child_event \<Rightarrow> string" where
  "stderr_chunk (StderrData d) = d"
| "stderr_chunk ev = []"

definition stdout_of :: "child_event list \<Rightarrow> string" where
  "stdout_of evs = concat (map stdout_chunk evs)"

definition stderr_of :: "child_event list \<Rightarrow> string" where
  "stderr_of evs = concat (map stderr_chunk evs)"

definition settle_inv :: "spawn_state \<Rightarrow> bool" where
  "settle_inv st = ((settled st \<longleftrightarrow> calls st \<noteq> []) \<and> length (calls st) \<le> 1)"

text \<open>
  A call of \<^verbatim>\<open>reject\<close> whose error has none of the properties \<^verbatim>\<open>signal\<close>,
  \<^verbatim>\<open>code\<close>, \<^verbatim>\<open>stderr\<close> and \<^verbatim>\<open>stdout\<close>.
\<close>

fun plain_call :: "settlement \<Rightarrow> bool" where
  "plain_call (Resolve out err) = True"
| "plain_call (Reject e) = (err_signal e = None \<and> err_code e = None
                            \<and> err_stderr e = None \<and> err_stdout e = None)"

section \<open>Basic facts\<close>

lemma typeof_string_iff: "typeof v = ''string'' \<longleftrightarrow> (\<exists>s. v = JString s)"
  by (cases v) simp_all

lemma typeof_boolean_iff: "typeof v = ''boolean'' \<longleftrightarrow> (\<exists>b. v = JBool b)"
  by (cases v) simp_all

lemma str_includes_sublist: "str_includes s t \<longleftrightarrow> sublist t s"
  by (induction s) (simp_all add: sublist_Cons_right)

lemma str_includes_append: "str_includes (a @ t @ b) t"
  by (simp add: str_includes_sublist)

lemma get_prop_result_string:
  "get_prop parsed k = Inr (JString r) \<Longrightarrow> \<exists>kvs. parsed = JObject kvs \<and> map_of kvs k = Some (JString r)"
  by (cases parsed) (auto split: option.splits)

lemma run_events_Nil [simp]: "run_events st [] = st"
  by (simp add: run_events_def)

lemma run_events_Cons [simp]: "run_events st (ev # evs) = run_events (on_event st ev) evs"
  by (simp add: run_events_def)

lemma run_events_append: "run_events st (xs @ ys) = run_events (run_events st xs) ys"
  by (simp add: run_events_def)

lemma on_event_stdout: "stdout (on_event st ev) = stdout st @ stdout_chunk ev"
  by (cases ev) simp_all

lemma on_event_stderr: "stderr (on_event st ev) = stderr st @ stderr_chunk ev"
  by (cases ev) simp_all

lemma run_events_stdout: "stdout (run_events st evs) = stdout st @ stdout_of evs"
  by (induction evs arbitrary: st) (simp_all add: stdout_of_def on_event_stdout)

lemma run_events_stderr: "stderr (run_events st evs) = stderr st @ stderr_of evs"
  by (induction evs arbitrary: st) (simp_all add: stderr_of_def on_event_stderr)

lemma on_event_data: "is_data ev \<Longrightarrow> settled (on_event st ev) = settled st \<and> calls (on_event st ev) = calls st"
  by (cases ev) simp_all

lemma run_events_data:
  "list_all is_data ds \<Longrightarrow> settled (run_events st ds) = settled st \<and> calls (run_events st ds) = calls st"
  by (induction ds arbitrary: st) (simp_all add: on_event_data)

lemma on_event_settled: "settled st \<Longrightarrow> settled (on_event st ev) \<and> calls (on_event st ev) = calls st"
  by (cases ev) simp_all

lemma run_events_settled:
  "settled st \<Longrightarrow> settled (run_events st evs) \<and> calls (run_events st evs) = calls st"
  by (induction evs arbitrary: st) (simp_all add: on_event_settled)

lemma on_event_inv: "settle_inv st \<Longrightarrow> settle_inv (on_event st ev)"
  by (cases ev) (auto simp: settle_inv_def)

lemma run_events_inv: "settle_inv st \<Longrightarrow> settle_inv (run_events st evs)"
  by (induction evs arbitrary: st) (simp_all add: on_event_inv)

lemma init_inv: "settle_inv spawn_init"
  by (simp add: settle_inv_def spawn_init_def)

lemma on_event_terminal: "\<not> is_data ev \<Longrightarrow> settled (on_event st ev)"
  by (cases ev) simp_all

lemma run_events_terminal: "\<exists>ev \<in> set evs. \<not> is_data ev \<Longrightarrow> settled (run_events st evs)"
proof (induction evs arbitrary: st)
  case Nil
  then show ?case by simp
next
  case (Cons ev evs)
  show ?case
  proof (cases "is_data ev")
    case True
    with Cons show ?thesis by simp
  next
    case False
    then have "settled (on_event st ev)" by (rule on_event_terminal)
    then show ?thesis by (simp add: run_events_settled)
  qed
qed

lemma throw_simps [simp]: "spawned (throw e) = []" "outcome (throw e) = Some (Inl e)"
  by (simp_all add: throw_def)

lemma invoke_spawned:
  "spawned (invoke pf cli as d child) =
     [\<lparr>command = cli, args = as, shell = False, timeout = executionTimeoutMs, cwd = d\<rparr>]"
  by (simp add: invoke_def Let_def)

lemma opt_prop_JObject: "opt_prop (JObject kvs) k = (case map_of kvs k of None \<Rightarrow> Undefined | Some v \<Rightarrow> v)"
  by (simp add: opt_prop_def)

lemma opt_prop_string:
  "opt_prop v k = JString s \<Longrightarrow> \<exists>kvs. v = JObject kvs \<and> map_of kvs k = Some (JString s)"
  by (cases v) (auto simp: opt_prop_def split: option.splits)

lemma callTool_fresh:
  "map_of kvs ''prompt'' = Some (JString p) \<Longrightarrow>
   callTool pf cli ''claude_code'' (JObject kvs) child =
     (case resolveWorkFolder pf (opt_prop (JObject kvs) ''workFolder'') of
        Inl e \<Rightarrow> throw e
      | Inr d \<Rightarrow> invoke pf cli
          [''--dangerously-skip-permissions'', ''-p'', ''--output-format'', ''json'', p] d child)"
  by (simp add: callTool_def opt_prop_JObject)

lemma callTool_reply:
  "map_of kvs ''threadId'' = Some (JString t) \<Longrightarrow> t \<noteq> [] \<Longrightarrow>
   map_of kvs ''prompt'' = Some (JString p) \<Longrightarrow>
   callTool pf cli ''claude_code_reply'' (JObject kvs) child =
     (if p = []
      then throw \<lparr>mcp_code = InvalidParams,
                  mcp_message = ''Missing or invalid required parameter: prompt''\<rparr>
      else case resolveWorkFolder pf (opt_prop (JObject kvs) ''workFolder'') of
             Inl e \<Rightarrow> throw e
           | Inr d \<Rightarrow> invoke pf cli
               [''--dangerously-skip-permissions'', ''-p'', ''--output-format'', ''json'',
                ''--resume'', t, p] d child)"
  by (simp add: callTool_def opt_prop_JObject split: sum.splits)



lemma callTool_cases:
  "(\<exists>e. callTool pf cli n a child = throw e) \<or>
   (\<exists>as. callTool pf cli n a child =
      (case resolveWorkFolder pf (opt_prop a ''workFolder'') of
         Inl e \<Rightarrow> throw e | Inr d \<Rightarrow> invoke pf cli as d child))"
  by (simp add: callTool_def Let_def) blast

lemma callTool_rejects:
  "toolName = ''claude_code'' \<or> toolName = ''claude_code_reply'' \<Longrightarrow>
   resolveWorkFolder pf (opt_prop targs ''workFolder'') = Inl e \<Longrightarrow>
   mcp_code e = InvalidParams \<Longrightarrow>
   spawned (callTool pf cli toolName targs child) = []
   \<and> (\<exists>m. outcome (callTool pf cli toolName targs child) =
            Some (Inl \<lparr>mcp_code = InvalidParams, mcp_message = m\<rparr>))"
  by (cases e) (auto simp: callTool_def Let_def)

lemma resolveWorkFolder_blank:
  "trim w = [] \<Longrightarrow>
   resolveWorkFolder pf (JString w) =
     Inl \<lparr>mcp_code = InvalidParams, mcp_message = ''workFolder cannot be an empty string''\<rparr>"
  by (simp add: resolveWorkFolder_def)

lemma trim_Nil: "trim [] = []"
  by (simp add: trim_def)

lemma resolveWorkFolder_missing:
  "trim w \<noteq> [] \<Longrightarrow> \<not> existsSync pf (pathResolve pf w) \<Longrightarrow>
   resolveWorkFolder pf (JString w) =
     Inl \<lparr>mcp_code = InvalidParams,
          mcp_message = ''Specified workFolder does not exist: '' @ pathResolve pf w\<rparr>"
  using trim_Nil by (auto simp: resolveWorkFolder_def Let_def)

lemma invoke_success:
  "outcome (invoke pf cli as d child) = Some (Inr resp) \<Longrightarrow>
   \<exists>out err. spawnAsync (child \<lparr>command = cli, args = as, shell = False,
                                 timeout = executionTimeoutMs, cwd = d\<rparr>) = Some (Resolve out err)
     \<and> resp = buildResponse (resultText (parseClaudeOutput pf out))
                (sessionId (parseClaudeOutput pf out)) (isError (parseClaudeOutput pf out))"
  by (auto simp: invoke_def Let_def split: option.splits settlement.splits)

lemma callTool_success:
  assumes "outcome (callTool pf cli toolName targs child) = Some (Inr resp)"
  shows "\<exists>req out err. spawned (callTool pf cli toolName targs child) = [req]
     \<and> spawnAsync (child req) = Some (Resolve out err)
     \<and> resp = buildResponse (resultText (parseClaudeOutput pf out))
                (sessionId (parseClaudeOutput pf out)) (isError (parseClaudeOutput pf out))"
proof -
  from callTool_cases [of pf cli toolName targs child] assms
  obtain as d where c: "callTool pf cli toolName targs child = invoke pf cli as d child"
    by (cases "resolveWorkFolder pf (opt_prop targs ''workFolder'')") auto
  with assms have "outcome (invoke pf cli as d child) = Some (Inr resp)" by simp
  from invoke_success [OF this] c show ?thesis
    by (auto simp: invoke_spawned)
qed

lemma get_prop_no_throw: "get_prop v k = Inr a \<Longrightarrow> get_prop v k' \<noteq> Inl e"
  by (cases v) simp_all

lemma sessionId_parse:
  "sessionId (parseClaudeOutput pf out) = Some s \<longleftrightarrow>
     (\<exists>parsed r. JSON_parse pf out = Inr parsed
        \<and> get_prop parsed ''result'' = Inr (JString r)
        \<and> get_prop parsed ''session_id'' = Inr (JString s))"
  by (auto simp: parseClaudeOutput_def parseClaudeOutput_try_def typeof_string_iff
      split: sum.splits dest: get_prop_no_throw)

lemma buildResponse_structured:
  "structuredContent (buildResponse rt sid err) =
     (case sid of None \<Rightarrow> None
      | Some s \<Rightarrow> if s = [] then None else Some \<lparr>threadId = s, sc_content = rt\<rparr>)"
  by (simp add: buildResponse_def Let_def split: option.splits)

lemma buildResponse_content:
  "content (buildResponse rt sid err) = [\<lparr>block_type = ''text'', block_text = rt\<rparr>]"
  by (simp add: buildResponse_def Let_def split: option.splits)

lemma on_event_plain:
  "list_all plain_call (calls st) \<Longrightarrow> list_all plain_call (calls (on_event st ev))"
  by (cases ev) (simp_all add: new_Error_def)

lemma run_events_plain:
  "list_all plain_call (calls st) \<Longrightarrow> list_all plain_call (calls (run_events st evs))"
  by (induction evs arbitrary: st) (simp_all add: on_event_plain)

lemma spawnAsync_rejects_plain:
  "spawnAsync evs = Some (Reject e) \<Longrightarrow>
   err_signal e = None \<and> err_code e = None \<and> err_stderr e = None \<and> err_stdout e = None"
  using run_events_plain [of spawn_init evs]
  by (auto simp: spawnAsync_def promise_of_def spawn_init_def split: list.splits)

lemma timeout_branch_only_by_text:
  "spawnAsync evs = Some (Reject e) \<Longrightarrow> \<not> str_includes (message e) ''ETIMEDOUT'' \<Longrightarrow>
   \<exists>m. execution_error e =
     \<lparr>mcp_code = InternalError, mcp_message = ''Claude CLI execution failed: '' @ m\<rparr>"
  using spawnAsync_rejects_plain [of evs e]
  by (simp add: execution_error_def Let_def)

lemmas sample_simps =
  sample_platform_def posix_isAbsolute_def resolveWorkFolder_def opt_prop_def trim_def
  js_whitespace_def

section \<open>The argument vector\<close>

text \<open>
  Claim C1. In a valid call (the prompt is a string and the working directory resolves,
  and for the resume tool the thread identifier and the prompt are non-empty strings), the
  handler calls \<^verbatim>\<open>spawn\<close> once, without a shell, with a fixed argument vector: for
  \<^verbatim>\<open>claude_code\<close> the flags \<^verbatim>\<open>--dangerously-skip-permissions -p --output-format json\<close>
  and then the prompt; for \<^verbatim>\<open>claude_code_reply\<close> the same flags, \<^verbatim>\<open>--resume\<close> with
  the thread identifier, and then the prompt. The prompt is the last element, character
  for character.
\<close>

theorem C1_argument_vector:
  "resolveWorkFolder pf (opt_prop (JObject kvs) ''workFolder'') = Inr dir \<Longrightarrow>
   map_of kvs ''prompt'' = Some (JString p) \<Longrightarrow>
   spawned (callTool pf cli ''claude_code'' (JObject kvs) child) =
     [\<lparr>command = cli,
       args = [''--dangerously-skip-permissions'', ''-p'', ''--output-format'', ''json'', p],
       shell = False, timeout = 1800000, cwd = dir\<rparr>]
   \<and> (map_of kvs ''threadId'' = Some (JString t) \<and> t \<noteq> [] \<and> p \<noteq> [] \<longrightarrow>
      spawned (callTool pf cli ''claude_code_reply'' (JObject kvs) child) =
        [\<lparr>command = cli,
          args = [''--dangerously-skip-permissions'', ''-p'', ''--output-format'', ''json'',
                  ''--resume'', t, p],
          shell = False, timeout = 1800000, cwd = dir\<rparr>])"
  by (simp add: callTool_fresh callTool_reply invoke_spawned executionTimeoutMs_def)

theorem C1_argument_vector_witness:
  \<open>spawned (callTool sample_platform ''claude'' ''claude_code''
      (JObject [(''prompt'', JString ''say "hi"; rm -rf $HOME''), (''threadId'', JString ''abc123''),
                (''workFolder'', JString ''/tmp/project'')]) ok_child) =
     [\<lparr>command = ''claude'',
       args = [''--dangerously-skip-permissions'', ''-p'', ''--output-format'', ''json'',
               ''say "hi"; rm -rf $HOME''],
       shell = False, timeout = 1800000, cwd = ''/tmp/project''\<rparr>]
   \<and> spawned (callTool sample_platform ''claude'' ''claude_code_reply''
      (JObject [(''prompt'', JString ''say "hi"; rm -rf $HOME''), (''threadId'', JString ''abc123''),
                (''workFolder'', JString ''/tmp/project'')]) ok_child) =
     [\<lparr>command = ''claude'',
       args = [''--dangerously-skip-permissions'', ''-p'', ''--output-format'', ''json'',
               ''--resume'', ''abc123'', ''say "hi"; rm -rf $HOME''],
       shell = False, timeout = 1800000, cwd = ''/tmp/project''\<rparr>]\<close>
proof -
  let ?kvs = \<open>[(''prompt'', JString ''say "hi"; rm -rf $HOME''), (''threadId'', JString ''abc123''),
                (''workFolder'', JString ''/tmp/project'')]\<close>
  have d: "resolveWorkFolder sample_platform (opt_prop (JObject ?kvs) ''workFolder'') =
             Inr ''/tmp/project''"
    by (simp add: sample_simps)
  have p: \<open>map_of ?kvs ''prompt'' = Some (JString ''say "hi"; rm -rf $HOME'')\<close>
    by simp
  show ?thesis
    using C1_argument_vector [OF d p, of "''claude''" ok_child "''abc123''"] by simp
qed

section \<open>The output interpreter\<close>

text \<open>
  Claim C2. \<^verbatim>\<open>parseClaudeOutput\<close> returns a value for every text. When the text parses
  and the \<^verbatim>\<open>result\<close> of the parsed value is a string, that string is the result text,
  the session identifier is \<^verbatim>\<open>session_id\<close> when that is a string and the error flag is
  \<^verbatim>\<open>is_error\<close> when that is a boolean. When the text does not parse, or parses to a
  value with no string \<^verbatim>\<open>result\<close>, the raw text is the result text and there is
  neither a session identifier nor an error flag. Every exception raised in the
  \<^verbatim>\<open>try\<close> block ends in that fallback.
\<close>

theorem C2_parse:
  "(JSON_parse pf s = Inr parsed \<and> get_prop parsed ''result'' = Inr (JString r) \<longrightarrow>
      parseClaudeOutput pf s =
        \<lparr>resultText = r,
         sessionId = (case opt_prop parsed ''session_id'' of JString t \<Rightarrow> Some t | _ \<Rightarrow> None),
         isError = (case opt_prop parsed ''is_error'' of JBool b \<Rightarrow> Some b | _ \<Rightarrow> None)\<rparr>)
   \<and> ((\<exists>e. JSON_parse pf s = Inl e) \<or>
       (\<exists>v. JSON_parse pf s = Inr v \<and> (\<forall>t. get_prop v ''result'' \<noteq> Inr (JString t))) \<longrightarrow>
      parseClaudeOutput pf s = \<lparr>resultText = s, sessionId = None, isError = None\<rparr>)
   \<and> (\<forall>e. parseClaudeOutput_try pf s = Inl e \<longrightarrow>
      parseClaudeOutput pf s = \<lparr>resultText = s, sessionId = None, isError = None\<rparr>)"
proof (intro conjI impI allI)
  assume a: "JSON_parse pf s = Inr parsed \<and> get_prop parsed ''result'' = Inr (JString r)"
  then obtain kvs where p: "parsed = JObject kvs" "map_of kvs ''result'' = Some (JString r)"
    using get_prop_result_string by blast
  show "parseClaudeOutput pf s =
        \<lparr>resultText = r,
         sessionId = (case opt_prop parsed ''session_id'' of JString t \<Rightarrow> Some t | _ \<Rightarrow> None),
         isError = (case opt_prop parsed ''is_error'' of JBool b \<Rightarrow> Some b | _ \<Rightarrow> None)\<rparr>"
    using a p
    by (simp add: parseClaudeOutput_def parseClaudeOutput_try_def opt_prop_def
        split: option.splits jsval.splits)
next
  assume "(\<exists>e. JSON_parse pf s = Inl e) \<or>
       (\<exists>v. JSON_parse pf s = Inr v \<and> (\<forall>t. get_prop v ''result'' \<noteq> Inr (JString t)))"
  then show "parseClaudeOutput pf s = \<lparr>resultText = s, sessionId = None, isError = None\<rparr>"
    by (auto simp: parseClaudeOutput_def parseClaudeOutput_try_def typeof_string_iff
        split: sum.splits)
next
  fix e assume "parseClaudeOutput_try pf s = Inl e"
  then show "parseClaudeOutput pf s = \<lparr>resultText = s, sessionId = None, isError = None\<rparr>"
    by (simp add: parseClaudeOutput_def)
qed

theorem C2_parse_witness:
  \<open>parseClaudeOutput sample_platform ''{"result":"ok","session_id":7,"is_error":true}'' =
     \<lparr>resultText = ''ok'', sessionId = None, isError = Some True\<rparr>
   \<and> parseClaudeOutput sample_platform ''{"session_id":"abc123"}'' =
     \<lparr>resultText = ''{"session_id":"abc123"}'', sessionId = None, isError = None\<rparr>
   \<and> parseClaudeOutput sample_platform ''done'' =
     \<lparr>resultText = ''done'', sessionId = None, isError = None\<rparr>\<close>
proof -
  let ?a = \<open>''{"result":"ok","session_id":7,"is_error":true}''\<close>
  let ?va = "JObject [(''result'', JString ''ok''), (''session_id'', JNumber 7),
                      (''is_error'', JBool True)]"
  let ?b = \<open>''{"session_id":"abc123"}''\<close>
  have a: "JSON_parse sample_platform ?a = Inr ?va \<and> get_prop ?va ''result'' = Inr (JString ''ok'')"
    by (simp add: sample_platform_def sample_JSON_parse_def)
  have b: "(\<exists>e. JSON_parse sample_platform ?b = Inl e) \<or>
       (\<exists>v. JSON_parse sample_platform ?b = Inr v \<and> (\<forall>t. get_prop v ''result'' \<noteq> Inr (JString t)))"
    by (simp add: sample_platform_def sample_JSON_parse_def)
  have c: "(\<exists>e. JSON_parse sample_platform ''done'' = Inl e) \<or>
       (\<exists>v. JSON_parse sample_platform ''done'' = Inr v \<and> (\<forall>t. get_prop v ''result'' \<noteq> Inr (JString t)))"
    by (simp add: sample_platform_def sample_JSON_parse_def)
  show ?thesis
    using C2_parse [of sample_platform ?a ?va "''ok''"] a
      C2_parse [of sample_platform ?b] b C2_parse [of sample_platform "''done''"] c
    by (simp add: opt_prop_def)
qed

section \<open>The working directory\<close>

text \<open>
  Claim C3. When \<^verbatim>\<open>workFolder\<close> is a string that is empty or blank, or one that
  resolves to a path that does not exist, a call of either tool spawns nothing and throws
  an \<^verbatim>\<open>McpError\<close> with the code \<^verbatim>\<open>InvalidParams\<close>. \<^verbatim>\<open>resolveWorkFolder\<close> then gives
  the message \<^verbatim>\<open>workFolder cannot be an empty string\<close> for a blank string, and for a
  missing path a message that ends with the resolved path; in a call whose required
  fields are valid, that error is the one thrown.
\<close>

theorem C3_workFolder_rejected:
  assumes tool: "toolName = ''claude_code'' \<or> toolName = ''claude_code_reply''"
    and wf: "opt_prop targs ''workFolder'' = JString w"
    and bad: "trim w = [] \<or> \<not> existsSync pf (pathResolve pf w)"
  shows "spawned (callTool pf cli toolName targs child) = []
   \<and> (\<exists>m. outcome (callTool pf cli toolName targs child) =
            Some (Inl \<lparr>mcp_code = InvalidParams, mcp_message = m\<rparr>))
   \<and> (trim w = [] \<longrightarrow>
        resolveWorkFolder pf (JString w) =
          Inl \<lparr>mcp_code = InvalidParams,
               mcp_message = ''workFolder cannot be an empty string''\<rparr>)
   \<and> (trim w \<noteq> [] \<longrightarrow>
        resolveWorkFolder pf (JString w) =
          Inl \<lparr>mcp_code = InvalidParams,
               mcp_message = ''Specified workFolder does not exist: '' @ pathResolve pf w\<rparr>
        \<and> str_includes (''Specified workFolder does not exist: '' @ pathResolve pf w)
             (pathResolve pf w))
   \<and> ((toolName = ''claude_code'' \<and> typeof (opt_prop targs ''prompt'') = ''string'')
       \<or> (toolName = ''claude_code_reply''
           \<and> truthy (opt_prop targs ''threadId'') \<and> typeof (opt_prop targs ''threadId'') = ''string''
           \<and> truthy (opt_prop targs ''prompt'') \<and> typeof (opt_prop targs ''prompt'') = ''string'')
       \<longrightarrow> (\<exists>e. resolveWorkFolder pf (JString w) = Inl e
              \<and> outcome (callTool pf cli toolName targs child) = Some (Inl e)))"
proof -
  have blank: "trim w = [] \<Longrightarrow> resolveWorkFolder pf (JString w) =
     Inl \<lparr>mcp_code = InvalidParams, mcp_message = ''workFolder cannot be an empty string''\<rparr>"
    by (rule resolveWorkFolder_blank)
  have missing: "trim w \<noteq> [] \<Longrightarrow> resolveWorkFolder pf (JString w) =
     Inl \<lparr>mcp_code = InvalidParams,
          mcp_message = ''Specified workFolder does not exist: '' @ pathResolve pf w\<rparr>"
  proof -
    assume t: "trim w \<noteq> []"
    with bad have "\<not> existsSync pf (pathResolve pf w)" by simp
    with t show ?thesis by (rule resolveWorkFolder_missing)
  qed
  obtain e where e: "resolveWorkFolder pf (JString w) = Inl e" "mcp_code e = InvalidParams"
    using blank missing by (cases "trim w = []") auto
  have 1: "spawned (callTool pf cli toolName targs child) = []
     \<and> (\<exists>m. outcome (callTool pf cli toolName targs child) =
            Some (Inl \<lparr>mcp_code = InvalidParams, mcp_message = m\<rparr>))"
    using callTool_rejects [OF tool, of pf targs e cli child] e wf by simp
  have 2: "str_includes (''Specified workFolder does not exist: '' @ pathResolve pf w)
             (pathResolve pf w)"
    using str_includes_append [of "''Specified workFolder does not exist: ''" "pathResolve pf w" "[]"]
    by simp
  obtain kvs where kvs: "targs = JObject kvs" "map_of kvs ''workFolder'' = Some (JString w)"
    using opt_prop_string [OF wf] by blast
  have 3: "(toolName = ''claude_code'' \<and> typeof (opt_prop targs ''prompt'') = ''string'')
       \<or> (toolName = ''claude_code_reply''
           \<and> truthy (opt_prop targs ''threadId'') \<and> typeof (opt_prop targs ''threadId'') = ''string''
           \<and> truthy (opt_prop targs ''prompt'') \<and> typeof (opt_prop targs ''prompt'') = ''string'')
       \<Longrightarrow> outcome (callTool pf cli toolName targs child) = Some (Inl e)"
    using e(1) kvs wf
    by (auto simp: callTool_def Let_def opt_prop_JObject typeof_string_iff split: option.splits)
  show ?thesis using 1 2 3 blank missing e by blast
qed

theorem C3_workFolder_rejected_witness:
  "spawned (callTool sample_platform ''claude'' ''claude_code''
      (JObject [(''prompt'', JString ''hi''), (''workFolder'', JString ''nope'')]) ok_child) = []
   \<and> outcome (callTool sample_platform ''claude'' ''claude_code''
      (JObject [(''prompt'', JString ''hi''), (''workFolder'', JString ''nope'')]) ok_child) =
     Some (Inl \<lparr>mcp_code = InvalidParams,
                mcp_message = ''Specified workFolder does not exist: /srv/mcp/nope''\<rparr>)
   \<and> spawned (callTool sample_platform ''claude'' ''claude_code_reply''
      (JObject [(''threadId'', JString ''abc123''), (''prompt'', JString ''hi''),
                (''workFolder'', JString ''  '')]) ok_child) = []
   \<and> outcome (callTool sample_platform ''claude'' ''claude_code_reply''
      (JObject [(''threadId'', JString ''abc123''), (''prompt'', JString ''hi''),
                (''workFolder'', JString ''  '')]) ok_child) =
     Some (Inl \<lparr>mcp_code = InvalidParams,
                mcp_message = ''workFolder cannot be an empty string''\<rparr>)"
proof -
  let ?a = "JObject [(''prompt'', JString ''hi''), (''workFolder'', JString ''nope'')]"
  let ?b = "JObject [(''threadId'', JString ''abc123''), (''prompt'', JString ''hi''),
                (''workFolder'', JString ''  '')]"
  have a1: "''claude_code'' = ''claude_code'' \<or> ''claude_code'' = ''claude_code_reply''" by simp
  have a2: "opt_prop ?a ''workFolder'' = JString ''nope''" by (simp add: opt_prop_def)
  have a3: "trim ''nope'' = [] \<or>
            \<not> existsSync sample_platform (pathResolve sample_platform ''nope'')"
    by (simp add: sample_simps)
  have a4: "trim ''nope'' \<noteq> []" by (simp add: trim_def js_whitespace_def)
  have a5: "pathResolve sample_platform ''nope'' = ''/srv/mcp/nope''" by (simp add: sample_simps)
  have b1: "''claude_code_reply'' = ''claude_code'' \<or> ''claude_code_reply'' = ''claude_code_reply''"
    by simp
  have b2: "opt_prop ?b ''workFolder'' = JString ''  ''" by (simp add: opt_prop_def)
  have b3: "trim ''  '' = [] \<or>
            \<not> existsSync sample_platform (pathResolve sample_platform ''  '')"
    by (simp add: trim_def js_whitespace_def)
  have b4: "trim ''  '' = []" by (simp add: trim_def js_whitespace_def)
  show ?thesis
    using C3_workFolder_rejected [OF a1 a2 a3, of "''claude''" ok_child] a4 a5
      C3_workFolder_rejected [OF b1 b2 b3, of "''claude''" ok_child] b4
    by (auto simp: opt_prop_def)
qed



section \<open>Validation of the prompt\<close>

text \<open>
  Claim C4, as the code has it. An empty prompt passes the validation of \<^verbatim>\<open>claude_code\<close>:
  the call goes on to resolve the working directory and, when that succeeds, spawns with
  the empty string as the last argument. \<^verbatim>\<open>claude_code_reply\<close> with a valid thread
  identifier rejects the empty prompt with \<^verbatim>\<open>InvalidParams\<close>.
\<close>

theorem C4_empty_prompt:
  "map_of kvs ''prompt'' = Some (JString []) \<Longrightarrow>
   callTool pf cli ''claude_code'' (JObject kvs) child =
     (case resolveWorkFolder pf (opt_prop (JObject kvs) ''workFolder'') of
        Inl e \<Rightarrow> throw e
      | Inr d \<Rightarrow> invoke pf cli
          [''--dangerously-skip-permissions'', ''-p'', ''--output-format'', ''json'', []] d child)
   \<and> (map_of kvs ''threadId'' = Some (JString t) \<and> t \<noteq> [] \<longrightarrow>
      callTool pf cli ''claude_code_reply'' (JObject kvs) child =
        throw \<lparr>mcp_code = InvalidParams,
               mcp_message = ''Missing or invalid required parameter: prompt''\<rparr>)"
  by (simp add: callTool_fresh callTool_reply)

theorem C4_empty_prompt_witness:
  "spawned (callTool sample_platform ''claude'' ''claude_code''
      (JObject [(''threadId'', JString ''abc123''), (''prompt'', JString [])]) ok_child) =
     [\<lparr>command = ''claude'',
       args = [''--dangerously-skip-permissions'', ''-p'', ''--output-format'', ''json'', []],
       shell = False, timeout = 1800000, cwd = ''/home/user''\<rparr>]
   \<and> callTool sample_platform ''claude'' ''claude_code_reply''
      (JObject [(''threadId'', JString ''abc123''), (''prompt'', JString [])]) ok_child =
     throw \<lparr>mcp_code = InvalidParams,
            mcp_message = ''Missing or invalid required parameter: prompt''\<rparr>"
proof -
  let ?kvs = "[(''threadId'', JString ''abc123''), (''prompt'', JString [])]"
  have p: "map_of ?kvs ''prompt'' = Some (JString [])" by simp
  have t: "map_of ?kvs ''threadId'' = Some (JString ''abc123'') \<and> ''abc123'' \<noteq> []" by simp
  have d: "resolveWorkFolder sample_platform (opt_prop (JObject ?kvs) ''workFolder'') =
             Inr ''/home/user''"
    by (simp add: sample_simps)
  show ?thesis
    using C4_empty_prompt [OF p, of sample_platform "''claude''" ok_child "''abc123''"] t d
    by (simp add: invoke_spawned executionTimeoutMs_def)
qed

text \<open>
  Claim C4 as stated, that the resume tool accepts an empty prompt, fails: with the thread
  identifier \<^verbatim>\<open>abc123\<close> and the prompt \<^verbatim>\<open>""\<close> the call throws
  \<^verbatim>\<open>InvalidParams\<close>.
\<close>

theorem C4_counterexample:
  "outcome (callTool sample_platform ''claude'' ''claude_code_reply''
      (JObject [(''threadId'', JString ''abc123''), (''prompt'', JString [])]) ok_child) =
     Some (Inl \<lparr>mcp_code = InvalidParams,
                mcp_message = ''Missing or invalid required parameter: prompt''\<rparr>)"
  by (simp add: callTool_def opt_prop_def)

section \<open>The executable resolver\<close>

text \<open>
  Claim C5, as the code has it. With an override that is a bare command name, as with no
  override, \<^verbatim>\<open>findClaudeCli\<close> checks the local installation path first and returns it
  when it exists; only otherwise does it return the bare name (or \<^verbatim>\<open>claude\<close> when
  there is no override or an empty one). An absolute override is returned as it is, and a
  relative-looking override is refused with an error, whether or not the local
  installation exists.
\<close>

theorem C5_resolver_cases:
  "(CLAUDE_CLI_NAME pf = Some c \<and> c \<noteq> [] \<and> \<not> isAbsolute pf c
      \<and> \<not> (startsWith c ''./'' \<or> startsWith c ''../'' \<or> str_includes c ''/'') \<longrightarrow>
      findClaudeCli pf = Inr (if existsSync pf (userPath pf) then userPath pf else c))
   \<and> (CLAUDE_CLI_NAME pf = None \<or> CLAUDE_CLI_NAME pf = Some [] \<longrightarrow>
      findClaudeCli pf = Inr (if existsSync pf (userPath pf) then userPath pf else ''claude''))
   \<and> (CLAUDE_CLI_NAME pf = Some c \<and> c \<noteq> [] \<and> isAbsolute pf c \<longrightarrow>
      findClaudeCli pf = Inr c)
   \<and> (CLAUDE_CLI_NAME pf = Some c \<and> c \<noteq> [] \<and> \<not> isAbsolute pf c
      \<and> (startsWith c ''./'' \<or> startsWith c ''../'' \<or> str_includes c ''/'') \<longrightarrow>
      findClaudeCli pf = Inl relative_error)"
  by (auto simp: findClaudeCli_def Let_def)

theorem C5_resolver_cases_witness:
  "findClaudeCli override_platform = Inr ''/home/user/.claude/local/claude''
   \<and> findClaudeCli (sample_platform\<lparr>CLAUDE_CLI_NAME := Some ''my-claude''\<rparr>) = Inr ''my-claude''
   \<and> findClaudeCli (override_platform\<lparr>CLAUDE_CLI_NAME := None\<rparr>) =
        Inr ''/home/user/.claude/local/claude''
   \<and> findClaudeCli sample_platform = Inr ''claude''
   \<and> findClaudeCli (override_platform\<lparr>CLAUDE_CLI_NAME := Some ''/opt/bin/claude''\<rparr>) =
        Inr ''/opt/bin/claude''
   \<and> findClaudeCli (override_platform\<lparr>CLAUDE_CLI_NAME := Some ''bin/claude''\<rparr>) =
        Inl relative_error"
proof -
  let ?bare = "sample_platform\<lparr>CLAUDE_CLI_NAME := Some ''my-claude''\<rparr>"
  let ?none = "override_platform\<lparr>CLAUDE_CLI_NAME := None\<rparr>"
  let ?abs = "override_platform\<lparr>CLAUDE_CLI_NAME := Some ''/opt/bin/claude''\<rparr>"
  let ?rel = "override_platform\<lparr>CLAUDE_CLI_NAME := Some ''bin/claude''\<rparr>"
  have a: "CLAUDE_CLI_NAME override_platform = Some ''my-claude'' \<and> ''my-claude'' \<noteq> []
      \<and> \<not> isAbsolute override_platform ''my-claude''
      \<and> \<not> (startsWith ''my-claude'' ''./'' \<or> startsWith ''my-claude'' ''../''
           \<or> str_includes ''my-claude'' ''/'')"
    by (simp add: override_platform_def sample_platform_def posix_isAbsolute_def startsWith_def)
  have b: "CLAUDE_CLI_NAME ?bare = Some ''my-claude'' \<and> ''my-claude'' \<noteq> []
      \<and> \<not> isAbsolute ?bare ''my-claude''
      \<and> \<not> (startsWith ''my-claude'' ''./'' \<or> startsWith ''my-claude'' ''../''
           \<or> str_includes ''my-claude'' ''/'')"
    by (simp add: sample_platform_def posix_isAbsolute_def startsWith_def)
  have c: "CLAUDE_CLI_NAME ?none = None \<or> CLAUDE_CLI_NAME ?none = Some []"
    "CLAUDE_CLI_NAME sample_platform = None \<or> CLAUDE_CLI_NAME sample_platform = Some []"
    by (simp_all add: sample_platform_def)
  have d: "CLAUDE_CLI_NAME ?abs = Some ''/opt/bin/claude'' \<and> ''/opt/bin/claude'' \<noteq> []
      \<and> isAbsolute ?abs ''/opt/bin/claude''"
    by (simp add: override_platform_def sample_platform_def posix_isAbsolute_def)
  have e: "CLAUDE_CLI_NAME ?rel = Some ''bin/claude'' \<and> ''bin/claude'' \<noteq> []
      \<and> \<not> isAbsolute ?rel ''bin/claude''
      \<and> (startsWith ''bin/claude'' ''./'' \<or> startsWith ''bin/claude'' ''../''
           \<or> str_includes ''bin/claude'' ''/'')"
    by (simp add: override_platform_def sample_platform_def posix_isAbsolute_def)
  have x: "existsSync override_platform (userPath override_platform)"
    "userPath override_platform = ''/home/user/.claude/local/claude''"
    "\<not> existsSync ?bare (userPath ?bare)"
    "existsSync ?none (userPath ?none)"
    "userPath ?none = ''/home/user/.claude/local/claude''"
    "\<not> existsSync sample_platform (userPath sample_platform)"
    by (simp_all add: override_platform_def sample_platform_def userPath_def)
  note r1 = C5_resolver_cases [of override_platform "''my-claude''", THEN conjunct1, rule_format, OF a]
  note r2 = C5_resolver_cases [of ?bare "''my-claude''", THEN conjunct1, rule_format, OF b]
  note r3 = C5_resolver_cases [of ?none "[]", THEN conjunct2, THEN conjunct1, rule_format, OF c(1)]
  note r4 = C5_resolver_cases [of sample_platform "[]", THEN conjunct2, THEN conjunct1,
      rule_format, OF c(2)]
  note r5 = C5_resolver_cases [of ?abs "''/opt/bin/claude''", THEN conjunct2, THEN conjunct2,
      THEN conjunct1, rule_format, OF d]
  note r6 = C5_resolver_cases [of ?rel "''bin/claude''", THEN conjunct2, THEN conjunct2,
      THEN conjunct2, rule_format, OF e]
  show ?thesis
    using r1 r2 r3 r4 r5 r6 x by simp
qed

text \<open>
  Claim C5 as stated, that a bare override skips the local installation, fails: with
  \<^verbatim>\<open>CLAUDE_CLI_NAME=my-claude\<close> and a local installation present, the resolver returns
  the local installation path.
\<close>

theorem C5_counterexample:
  "CLAUDE_CLI_NAME override_platform = Some ''my-claude''
   \<and> \<not> isAbsolute override_platform ''my-claude''
   \<and> \<not> (startsWith ''my-claude'' ''./'' \<or> startsWith ''my-claude'' ''../''
        \<or> str_includes ''my-claude'' ''/'')
   \<and> findClaudeCli override_platform = Inr ''/home/user/.claude/local/claude''
   \<and> findClaudeCli override_platform \<noteq> Inr ''my-claude''"
  by (simp add: findClaudeCli_def override_platform_def sample_platform_def userPath_def
      posix_isAbsolute_def startsWith_def)

section \<open>The process runner\<close>

text \<open>
  Claim C7, as the code has it. The first \<^verbatim>\<open>'close'\<close> or \<^verbatim>\<open>'error'\<close> event decides the
  promise. When it is \<^verbatim>\<open>'close'\<close>, the promise resolves with the accumulated standard
  output and standard error exactly when the exit code is 0; for every other code,
  \<^verbatim>\<open>null\<close> included, it rejects with an \<^verbatim>\<open>Error\<close> whose message holds the exit code
  and both accumulated streams, each with the white space at its ends trimmed. When it is
  \<^verbatim>\<open>'error'\<close>, the promise rejects with an \<^verbatim>\<open>Error\<close> whose message holds the message,
  path and system call of the event's error and the trimmed standard error, whatever exit
  code a later \<^verbatim>\<open>'close'\<close> reports.
\<close>

theorem C7_first_event:
  "list_all is_data ds \<Longrightarrow>
   spawnAsync (ds @ CloseEvent code sig # rest) =
     Some (if code = Some 0 then Resolve (stdout_of ds) (stderr_of ds)
           else Reject (new_Error (''Command failed with exit code '' @ string_of_code code @
                  ''\<newline>Stderr: '' @ trim (stderr_of ds) @
                  ''\<newline>Stdout: '' @ trim (stdout_of ds))))
   \<and> spawnAsync (ds @ ErrorEvent error # rest) =
     Some (Reject (new_Error (''Spawn error: '' @ message error @
                  (if present (err_path error) then '' | Path: '' @ the (err_path error) else []) @
                  (if present (err_syscall error)
                   then '' | Syscall: '' @ the (err_syscall error) else []) @
                  ''\<newline>Stderr: '' @ trim (stderr_of ds))))"
proof -
  assume ds: "list_all is_data ds"
  define st where "st = run_events spawn_init ds"
  have st: "\<not> settled st" "calls st = []" "stdout st = stdout_of ds" "stderr st = stderr_of ds"
    using run_events_data [OF ds, of spawn_init]
    by (simp_all add: st_def run_events_stdout run_events_stderr spawn_init_def)
  have first: "spawnAsync (ds @ ev # rest) = promise_of (on_event st ev)" if "\<not> is_data ev" for ev
  proof -
    have "settled (on_event st ev)" using that by (rule on_event_terminal)
    then have "calls (run_events (on_event st ev) rest) = calls (on_event st ev)"
      by (simp add: run_events_settled)
    then show ?thesis
      by (simp add: spawnAsync_def run_events_append st_def promise_of_def)
  qed
  have c: "spawnAsync (ds @ CloseEvent code sig # rest) =
     Some (if code = Some 0 then Resolve (stdout_of ds) (stderr_of ds)
           else Reject (new_Error (''Command failed with exit code '' @ string_of_code code @
                  ''\<newline>Stderr: '' @ trim (stderr_of ds) @
                  ''\<newline>Stdout: '' @ trim (stdout_of ds))))"
    using st first [of "CloseEvent code sig"] by (simp add: promise_of_def close_error_message_def)
  have e: "spawnAsync (ds @ ErrorEvent error # rest) =
     Some (Reject (new_Error (''Spawn error: '' @ message error @
                  (if present (err_path error) then '' | Path: '' @ the (err_path error) else []) @
                  (if present (err_syscall error)
                   then '' | Syscall: '' @ the (err_syscall error) else []) @
                  ''\<newline>Stderr: '' @ trim (stderr_of ds))))"
    using st first [of "ErrorEvent error"]
    by (simp add: promise_of_def spawn_error_message_def Let_def)
  show ?thesis using c e by simp
qed

theorem C7_first_event_witness:
  "spawnAsync ([StdoutData ''x '', StderrData '' boom ''] @ CloseEvent (Some 1) None # []) =
     Some (Reject (new_Error
       ''Command failed with exit code 1\<newline>Stderr: boom\<newline>Stdout: x''))
   \<and> spawnAsync ([StdoutData ''x '', StderrData '' boom ''] @ CloseEvent (Some 0) None # []) =
     Some (Resolve ''x '' '' boom '')
   \<and> spawnAsync ([StdoutData ''x '', StderrData '' boom ''] @
        ErrorEvent (new_Error ''kill EPERM''\<lparr>err_syscall := Some ''kill''\<rparr>) # []) =
     Some (Reject (new_Error ''Spawn error: kill EPERM | Syscall: kill\<newline>Stderr: boom''))"
proof -
  have d: "list_all is_data [StdoutData ''x '', StderrData '' boom '']" by simp
  show ?thesis
    using C7_first_event [OF d, of "Some 1" None "[]"
        "new_Error ''kill EPERM''\<lparr>err_syscall := Some ''kill''\<rparr>"]
      C7_first_event [OF d, of "Some 0" None "[]" "new_Error []"]
    by (simp add: stdout_of_def stderr_of_def trim_def js_whitespace_def string_of_code_def
        String_number_def new_Error_def present_def)
qed

text \<open>
  Claim C7 as stated, for every run, fails when an \<^verbatim>\<open>'error'\<close> event comes before
  \<^verbatim>\<open>'close'\<close>: with the exit code 0 the promise is rejected all the same, and with the
  exit code -2 of a command that was not found the rejection holds neither the exit code
  nor the standard output.
\<close>

theorem C7_counterexample:
  "spawnAsync [StdoutData ''out'', ErrorEvent (new_Error ''kill EPERM''),
               CloseEvent (Some 0) None] =
     Some (Reject (new_Error ''Spawn error: kill EPERM\<newline>Stderr: ''))
   \<and> spawnAsync [ErrorEvent (new_Error ''spawn claude ENOENT''
                    \<lparr>err_path := Some ''claude'', err_syscall := Some ''spawn claude''\<rparr>),
                  CloseEvent (Some (- 2)) None] =
     Some (Reject (new_Error
       ''Spawn error: spawn claude ENOENT | Path: claude | Syscall: spawn claude\<newline>Stderr: ''))
   \<and> \<not> str_includes
         ''Spawn error: spawn claude ENOENT | Path: claude | Syscall: spawn claude\<newline>Stderr: ''
         ''-2''
   \<and> \<not> str_includes ''Spawn error: kill EPERM\<newline>Stderr: '' ''out''"
  by (simp add: spawnAsync_def spawn_init_def promise_of_def spawn_error_message_def new_Error_def
      present_def trim_def)

text \<open>
  Claim C8. An invocation never calls \<^verbatim>\<open>resolve\<close> or \<^verbatim>\<open>reject\<close> more than once. In a
  settled state an \<^verbatim>\<open>'error'\<close> or \<^verbatim>\<open>'close'\<close> event changes nothing; and once a
  sequence of events holds one of the two, the promise is settled and no later event
  changes its value or adds a call.
\<close>

theorem C8_settles_once:
  "length (calls (run_events spawn_init evs)) \<le> 1
   \<and> (settled st \<longrightarrow> on_event st (ErrorEvent error) = st \<and> on_event st (CloseEvent code sig) = st)
   \<and> ((\<exists>ev \<in> set evs. \<not> is_data ev) \<longrightarrow>
        spawnAsync evs \<noteq> None
        \<and> calls (run_events spawn_init (evs @ later)) = calls (run_events spawn_init evs)
        \<and> spawnAsync (evs @ later) = spawnAsync evs)"
proof (intro conjI impI)
  show "length (calls (run_events spawn_init evs)) \<le> 1"
    using run_events_inv [OF init_inv, of evs] by (simp add: settle_inv_def)
next
  assume "settled st"
  then show "on_event st (ErrorEvent error) = st" by simp
next
  assume "settled st"
  then show "on_event st (CloseEvent code sig) = st" by simp
next
  assume t: "\<exists>ev \<in> set evs. \<not> is_data ev"
  then have s: "settled (run_events spawn_init evs)" by (rule run_events_terminal)
  with run_events_inv [OF init_inv, of evs]
  show "spawnAsync evs \<noteq> None"
    by (auto simp: spawnAsync_def promise_of_def settle_inv_def split: list.splits)
  show c: "calls (run_events spawn_init (evs @ later)) = calls (run_events spawn_init evs)"
    using s by (simp add: run_events_append run_events_settled)
  show "spawnAsync (evs @ later) = spawnAsync evs"
    using c by (simp add: spawnAsync_def promise_of_def)
qed

theorem C8_settles_once_witness:
  "spawnAsync ([StdoutData ''ok'', CloseEvent (Some 0) None] @
               [ErrorEvent (new_Error ''late''), CloseEvent (Some 1) None]) =
     Some (Resolve ''ok'' [])
   \<and> length (calls (run_events spawn_init
        ([StdoutData ''ok'', CloseEvent (Some 0) None] @
         [ErrorEvent (new_Error ''late''), CloseEvent (Some 1) None]))) = 1"
proof -
  let ?evs = "[StdoutData ''ok'', CloseEvent (Some 0) None]"
  let ?later = "[ErrorEvent (new_Error ''late''), CloseEvent (Some 1) None]"
  have t: "\<exists>ev \<in> set ?evs. \<not> is_data ev" by simp
  have v: "spawnAsync ?evs = Some (Resolve ''ok'' [])"
    "calls (run_events spawn_init ?evs) = [Resolve ''ok'' []]"
    by (simp_all add: spawnAsync_def spawn_init_def promise_of_def)
  show ?thesis
    using C8_settles_once [of ?evs "run_events spawn_init ?evs" "new_Error ''late''" "Some 1" None
        ?later] t v
    by simp
qed

text \<open>
  Claim C6, at a run where the timeout ends the child: the \<^verbatim>\<open>'close'\<close> event carries
  the code \<^verbatim>\<open>null\<close> and the signal \<^verbatim>\<open>SIGTERM\<close>. \<^verbatim>\<open>spawnAsync\<close> rejects with a
  plain \<^verbatim>\<open>Error\<close> that has no \<^verbatim>\<open>signal\<close>, so the handler takes the branch of an
  ordinary failure: the message says \<^verbatim>\<open>execution failed\<close> and names neither the
  timeout nor its duration. No rejection of \<^verbatim>\<open>spawnAsync\<close> carries a signal or a
  code, so the branch for a timeout is taken only when the text \<^verbatim>\<open>ETIMEDOUT\<close> occurs
  in the message.
\<close>

theorem C6_timeout_message:
  "callTool sample_platform ''claude'' ''claude_code'' (JObject [(''prompt'', JString ''hi'')])
     timed_out_child =
   \<lparr>spawned = [\<lparr>command = ''claude'',
                 args = [''--dangerously-skip-permissions'', ''-p'', ''--output-format'',
                         ''json'', ''hi''],
                 shell = False, timeout = 1800000, cwd = ''/home/user''\<rparr>],
    outcome = Some (Inl \<lparr>mcp_code = InternalError,
                mcp_message = ''Claude CLI execution failed: Command failed with exit code null\<newline>Stderr: \<newline>Stdout: ''\<rparr>)\<rparr>"
  by (simp add: callTool_def opt_prop_def resolveWorkFolder_def sample_platform_def invoke_def
      executionTimeoutMs_def timed_out_child_def spawnAsync_def spawn_init_def promise_of_def
      close_error_message_def string_of_code_def trim_def new_Error_def execution_error_def
      present_def)

theorem C6_timeout_message_witness:
  "\<exists>m. outcome (callTool sample_platform ''claude'' ''claude_code''
            (JObject [(''prompt'', JString ''hi'')]) timed_out_child) =
          Some (Inl \<lparr>mcp_code = InternalError, mcp_message = m\<rparr>)
       \<and> \<not> str_includes m ''timed out'' \<and> \<not> str_includes m ''1800''"
  using C6_timeout_message by simp

section \<open>The session extension of the response\<close>

text \<open>
  Claim C10. A call that returns a response has spawned one process, whose promise resolved
  with some standard output. The response has \<^verbatim>\<open>structuredContent\<close> exactly when the
  session identifier parsed from that output is a non-empty string; its \<^verbatim>\<open>threadId\<close>
  is then that identifier and its \<^verbatim>\<open>content\<close> the result text. The parsed session
  identifier is a string exactly when the output parses to a value whose \<^verbatim>\<open>result\<close>
  and \<^verbatim>\<open>session_id\<close> are both strings.
\<close>

theorem C10_structured_content:
  assumes "outcome (callTool pf cli toolName targs child) = Some (Inr resp)"
  shows "\<exists>req out err.
     spawned (callTool pf cli toolName targs child) = [req]
     \<and> spawnAsync (child req) = Some (Resolve out err)
     \<and> (structuredContent resp \<noteq> None \<longleftrightarrow>
          (\<exists>s. sessionId (parseClaudeOutput pf out) = Some s \<and> s \<noteq> []))
     \<and> (\<forall>sc. structuredContent resp = Some sc \<longrightarrow>
          sessionId (parseClaudeOutput pf out) = Some (threadId sc)
          \<and> sc_content sc = resultText (parseClaudeOutput pf out)
          \<and> content resp = [\<lparr>block_type = ''text'', block_text = sc_content sc\<rparr>])
     \<and> (\<forall>s. sessionId (parseClaudeOutput pf out) = Some s \<longleftrightarrow>
          (\<exists>parsed r. JSON_parse pf out = Inr parsed
             \<and> get_prop parsed ''result'' = Inr (JString r)
             \<and> get_prop parsed ''session_id'' = Inr (JString s)))"
proof -
  from callTool_success [OF assms] obtain req out err where
    r: "spawned (callTool pf cli toolName targs child) = [req]"
       "spawnAsync (child req) = Some (Resolve out err)"
       "resp = buildResponse (resultText (parseClaudeOutput pf out))
                (sessionId (parseClaudeOutput pf out)) (isError (parseClaudeOutput pf out))"
    by blast
  have a: "structuredContent resp \<noteq> None \<longleftrightarrow>
          (\<exists>s. sessionId (parseClaudeOutput pf out) = Some s \<and> s \<noteq> [])"
    by (simp add: r(3) buildResponse_structured split: option.splits)
  have b: "\<forall>sc. structuredContent resp = Some sc \<longrightarrow>
          sessionId (parseClaudeOutput pf out) = Some (threadId sc)
          \<and> sc_content sc = resultText (parseClaudeOutput pf out)
          \<and> content resp = [\<lparr>block_type = ''text'', block_text = sc_content sc\<rparr>]"
    by (auto simp: r(3) buildResponse_structured buildResponse_content split: option.splits if_splits)
  show ?thesis using r(1,2) a b sessionId_parse by blast
qed

theorem C10_structured_content_witness:
  "outcome (callTool sample_platform ''claude'' ''claude_code''
      (JObject [(''prompt'', JString ''hi'')]) ok_child) =
     Some (Inr \<lparr>content = [\<lparr>block_type = ''text'', block_text = ''ok''\<rparr>],
                result_isError = False,
                structuredContent = Some \<lparr>threadId = ''abc123'', sc_content = ''ok''\<rparr>\<rparr>)
   \<and> (\<exists>req out. spawned (callTool sample_platform ''claude'' ''claude_code''
          (JObject [(''prompt'', JString ''hi'')]) ok_child) = [req]
        \<and> spawnAsync (ok_child req) = Some (Resolve out [])
        \<and> sessionId (parseClaudeOutput sample_platform out) = Some ''abc123'')"
proof -
  let ?resp = "\<lparr>content = [\<lparr>block_type = ''text'', block_text = ''ok''\<rparr>],
                result_isError = False,
                structuredContent = Some \<lparr>threadId = ''abc123'', sc_content = ''ok''\<rparr>\<rparr>"
  have h: "outcome (callTool sample_platform ''claude'' ''claude_code''
      (JObject [(''prompt'', JString ''hi'')]) ok_child) = Some (Inr ?resp)"
    by (simp add: callTool_def sample_simps invoke_def ok_child_def spawnAsync_def spawn_init_def
        promise_of_def parseClaudeOutput_def parseClaudeOutput_try_def sample_JSON_parse_def
        buildResponse_def)
  have e: "\<And>req. spawnAsync (ok_child req) = Some (Resolve out err) \<Longrightarrow> err = []" for out err
    by (simp add: ok_child_def spawnAsync_def spawn_init_def promise_of_def)
  show ?thesis
    using h C10_structured_content [OF h] e by fastforce
qed

end
